theory Spec2Isabelle
  imports Complex_Main "HOL-Library.Sublist"
begin

section \<open>Strings as the parser reads them\<close>

text \<open>
  A line is a Python \<^verbatim>\<open>str\<close>; it is modelled as a list of characters and read as
  ASCII text. The character classes are Python's on code points below 128:
  \<^verbatim>\<open>str.isspace\<close> and the pattern class \<^verbatim>\<open>\s\<close> hold of tab, line feed,
  vertical tab, form feed, carriage return, the four separators 0x1C to 0x1F and the space;
  \<^verbatim>\<open>\d\<close> and \<^verbatim>\<open>str.isdigit\<close> hold of the ten digits;
  \<^verbatim>\<open>str.lower\<close> maps the 26 capital letters. A character above 127 is in no class
  and is its own lower case.
\<close>

definition is_space :: "char \<Rightarrow> bool" where
  "is_space c =
     (let n = (of_char c :: nat) in (9 \<le> n \<and> n \<le> 13) \<or> (28 \<le> n \<and> n \<le> 32))"

definition is_digit :: "char \<Rightarrow> bool" where
  "is_digit c = (let n = (of_char c :: nat) in 48 \<le> n \<and> n \<le> 57)"

definition is_alpha :: "char \<Rightarrow> bool" where
  "is_alpha c =
     (let n = (of_char c :: nat) in (65 \<le> n \<and> n \<le> 90) \<or> (97 \<le> n \<and> n \<le> 122))"

definition lower_char :: "char \<Rightarrow> char" where
  "lower_char c =
     (let n = (of_char c :: nat) in if 65 \<le> n \<and> n \<le> 90 then char_of (n + 32) else c)"

definition lower :: "string \<Rightarrow> string" where
  "lower s = map lower_char s"

definition strip :: "string \<Rightarrow> string" where
  "strip s = rev (dropWhile is_space (rev (dropWhile is_space s)))"

definition isdigit :: "string \<Rightarrow> bool" where
  "isdigit s = (s \<noteq> [] \<and> list_all is_digit s)"

text \<open>\<^verbatim>\<open>int(s)\<close> on a string of decimal digits.\<close>

definition py_int_of :: "string \<Rightarrow> nat" where
  "py_int_of s = fold (\<lambda>c n. 10 * n + (of_char c - 48)) s 0"



text \<open>\<^verbatim>\<open>sub in s\<close> for strings.\<close>

fun contains :: "string \<Rightarrow> string \<Rightarrow> bool" where
  "contains sub [] = (sub = [])"
| "contains sub (c # cs) = (prefix sub (c # cs) \<or> contains sub cs)"

text \<open>
  \<^verbatim>\<open>s.split(sep, 1)\<close> when \<^verbatim>\<open>sep\<close> occurs in \<^verbatim>\<open>s\<close>: the text before the
  first occurrence and the text after it; \<open>None\<close> when there is no occurrence.
\<close>

fun split_once :: "string \<Rightarrow> string \<Rightarrow> (string \<times> string) option" where
  "split_once sep [] = (if sep = [] then Some ([], []) else None)"
| "split_once sep (c # cs) =
     (if prefix sep (c # cs) then Some ([], drop (length sep) (c # cs))
      else (case split_once sep cs of
              None \<Rightarrow> None
            | Some (a, b) \<Rightarrow> Some (c # a, b)))"

text \<open>\<^verbatim>\<open>s.split(c)\<close> for a one-character separator: never the empty list.\<close>

fun split_char :: "char \<Rightarrow> string \<Rightarrow> string list" where
  "split_char sep [] = [[]]"
| "split_char sep (c # cs) =
     (if c = sep then [] # split_char sep cs
      else (case split_char sep cs of
              [] \<Rightarrow> [[c]]
            | p # ps \<Rightarrow> (c # p) # ps))"

section \<open>The exercise-line parser (src/workout\_parser.py)\<close>

record exercise_set =
  weight :: nat
  reps :: nat

text \<open>
  The dictionary \<^verbatim>\<open>parse_exercise_line\<close> returns. Only the weighted branch stores
  \<^verbatim>\<open>original_line\<close>.
\<close>

record parsed_exercise =
  exercise :: string
  sets :: "exercise_set list"
  first_weight :: nat
  first_reps :: nat
  total_sets :: nat
  max_weight :: nat
  max_reps :: nat
  is_bodyweight :: bool
  original_line :: "string option"

text \<open>
  \<^verbatim>\<open>max(...)\<close> over a list the parser has checked to be non-empty (on the empty list
  Python raises; the parser never gets there).
\<close>

definition max_of :: "nat list \<Rightarrow> nat" where
  "max_of xs = (case xs of [] \<Rightarrow> 0 | x # ys \<Rightarrow> fold max ys x)"

subsection \<open>The three patterns\<close>

text \<open>
  The tail \<^verbatim>\<open>\d+(?:\s*,\s*\d+)*$\<close> of the bodyweight pattern, matched against a whole
  string: digits, then either the end or blanks, a comma, blanks and the same again. A
  greedy run of digits or blanks that gave a character back would leave that character
  where the pattern wants a comma, a digit or the end, so the greedy reading is the only one.
\<close>

function rep_list :: "string \<Rightarrow> bool" where
  "rep_list s =
     (if takeWhile is_digit s = [] then False
      else if dropWhile is_digit s = [] then True
      else (case dropWhile is_space (dropWhile is_digit s) of
              [] \<Rightarrow> False
            | c # r \<Rightarrow> if c = CHR '','' then rep_list (dropWhile is_space r) else False))"
  by pat_completeness auto
termination
proof (relation "measure length")
  show "wf (measure length)" by simp
next
  fix s :: string and c r
  assume a: "dropWhile is_space (dropWhile is_digit s) = c # r"
  have "length (dropWhile is_space r) \<le> length r"
    by (rule length_dropWhile_le)
  also have "length r < length (c # r)" by simp
  also have "length (c # r) \<le> length (dropWhile is_digit s)"
    unfolding a [symmetric] by (rule length_dropWhile_le)
  also have "\<dots> \<le> length s" by (rule length_dropWhile_le)
  finally show "(dropWhile is_space r, s) \<in> measure length" by simp
qed

declare rep_list.simps [simp del]

definition name_char :: "char \<Rightarrow> bool" where
  "name_char c = (is_alpha c \<or> is_space c \<or> c = CHR ''-'')"

text \<open>
  \<^verbatim>\<open>re.match(r'^([a-zA-Z\s\-]+?)\s+(\d+(?:\s*,\s*\d+)*)$', line)\<close>: the two groups.
  No digit is in the class of the name or in \<^verbatim>\<open>\s\<close>, and the second group starts
  with a digit: so the name and the blanks after it are exactly the longest prefix \<open>p\<close> of
  name characters, and the second group is all the rest. The lazy name is the shortest
  non-empty prefix of \<open>p\<close> followed by blanks only, at least one.
\<close>

definition bodyweight_match :: "string \<Rightarrow> (string \<times> string) option" where
  "bodyweight_match line =
     (let p = takeWhile name_char line;
          rest = dropWhile name_char line;
          n = max 1 (length (rev (dropWhile is_space (rev p))))
      in if n < length p \<and> rep_list rest then Some (take n p, rest) else None)"

text \<open>
  \<^verbatim>\<open>re.match(r'(\d+)\s*(?:\([^)]+\))?\s*\*', s)\<close>: group 1. After the digits and the
  blanks the next character decides: a star ends the match, an opening parenthesis opens
  the qualifier, which runs to the first closing parenthesis and is not empty.
\<close>

definition weight_match :: "string \<Rightarrow> string option" where
  "weight_match s =
     (if takeWhile is_digit s = [] then None
      else (case dropWhile is_space (dropWhile is_digit s) of
              [] \<Rightarrow> None
            | c # r \<Rightarrow>
                if c = CHR ''*'' then Some (takeWhile is_digit s)
                else if c = CHR ''('' then
                  (let inner = takeWhile (\<lambda>x. x \<noteq> CHR '')'') r;
                       after = dropWhile (\<lambda>x. x \<noteq> CHR '')'') r
                   in if inner = [] \<or> after = [] then None
                      else (case dropWhile is_space (tl after) of
                              [] \<Rightarrow> None
                            | d # _ \<Rightarrow> if d = CHR ''*'' then Some (takeWhile is_digit s) else None))
                else None))"

text \<open>
  \<^verbatim>\<open>re.search(r'(\d+)\s*\*\s*(\d+)', part)\<close>: the match at the leftmost position that
  has one, with both groups greedy.
\<close>

definition weight_reps_here :: "string \<Rightarrow> (string \<times> string) option" where
  "weight_reps_here s =
     (if takeWhile is_digit s = [] then None
      else (case dropWhile is_space (dropWhile is_digit s) of
              [] \<Rightarrow> None
            | c # r \<Rightarrow>
                if c = CHR ''*'' \<and> takeWhile is_digit (dropWhile is_space r) \<noteq> []
                then Some (takeWhile is_digit s, takeWhile is_digit (dropWhile is_space r))
                else None))"

fun weight_reps_search :: "string \<Rightarrow> (string \<times> string) option" where
  "weight_reps_search [] = None"
| "weight_reps_search (c # cs) =
     (case weight_reps_here (c # cs) of
        Some g \<Rightarrow> Some g
      | None \<Rightarrow> weight_reps_search cs)"

subsection \<open>The line parser\<close>

text \<open>
  One pass of the inner loop \<^verbatim>\<open>for part in parts\<close>; the state is
  \<^verbatim>\<open>(current_weight, sets)\<close>.
\<close>

definition parse_part :: "string \<Rightarrow> nat \<times> exercise_set list \<Rightarrow> nat \<times> exercise_set list" where
  "parse_part part st =
     (if CHR ''*'' \<in> set part then
        (case weight_reps_search part of
           Some (g1, g2) \<Rightarrow>
             (py_int_of g1, snd st @ [\<lparr>weight = py_int_of g1, reps = py_int_of g2\<rparr>])
         | None \<Rightarrow> st)
      else if isdigit part then
        (fst st, snd st @ [\<lparr>weight = fst st, reps = py_int_of part\<rparr>])
      else st)"

definition parse_group :: "string \<Rightarrow> nat \<times> exercise_set list \<Rightarrow> nat \<times> exercise_set list" where
  "parse_group grp st = fold parse_part (map strip (split_char CHR '','' (strip grp))) st"

definition parse_sets :: "nat \<Rightarrow> string \<Rightarrow> exercise_set list" where
  "parse_sets fw reps_part =
     (if CHR '';'' \<in> set reps_part
      then snd (fold parse_group (split_char CHR '';'' reps_part) (fw, []))
      else snd (fold parse_part (map strip (split_char CHR '','' reps_part)) (fw, [])))"

text \<open>The bodyweight branch, tried first.\<close>

definition parse_bodyweight :: "string \<Rightarrow> parsed_exercise option" where
  "parse_bodyweight line =
     (case bodyweight_match line of
        None \<Rightarrow> None
      | Some (g1, reps_str) \<Rightarrow>
          (let rs = map (\<lambda>r. py_int_of (strip r))
                      (filter (\<lambda>r. isdigit (strip r)) (split_char CHR '','' reps_str))
           in if rs = [] then None
              else Some \<lparr>exercise = strip g1,
                         sets = map (\<lambda>r. \<lparr>weight = 0, reps = r\<rparr>) rs,
                         first_weight = 0,
                         first_reps = hd rs,
                         total_sets = length rs,
                         max_weight = 0,
                         max_reps = max_of rs,
                         is_bodyweight = True,
                         original_line = None\<rparr>))"

text \<open>The weight-times-reps branch.\<close>

definition parse_weighted :: "string \<Rightarrow> parsed_exercise option" where
  "parse_weighted line =
     (case split_once '' - '' line of
        None \<Rightarrow> None
      | Some (p0, p1) \<Rightarrow>
          (case weight_match (strip p1) of
             None \<Rightarrow> None
           | Some g \<Rightarrow>
               (let fw = py_int_of g;
                    reps_part = (case split_once ''*'' (strip p1) of
                                   None \<Rightarrow> []
                                 | Some (a, b) \<Rightarrow> b);
                    ss = parse_sets fw reps_part
                in if ss = [] then None
                   else Some \<lparr>exercise = strip p0,
                              sets = ss,
                              first_weight = fw,
                              first_reps = reps (hd ss),
                              total_sets = length ss,
                              max_weight = max_of (map weight ss),
                              max_reps = max_of (map reps ss),
                              is_bodyweight = (fw = 0),
                              original_line = Some line\<rparr>)))"

definition parse_exercise_line :: "string \<Rightarrow> parsed_exercise option" where
  "parse_exercise_line line0 =
     (let line = strip line0
      in if line = [] \<or> prefix ''SKIP'' line \<or> prefix ''run'' line then None
         else (case parse_bodyweight line of
                 Some r \<Rightarrow> Some r
               | None \<Rightarrow> parse_weighted line))"

record parsed_workout =
  exercises :: "parsed_exercise list"
  exercise_count :: nat
  total_sets_sum :: nat

definition parse_workout_text :: "string \<Rightarrow> parsed_workout" where
  "parse_workout_text workout_text =
     (let lines = map strip (filter (\<lambda>l. strip l \<noteq> []) (split_char CHR 0x0A workout_text));
          exs = List.map_filter parse_exercise_line lines
      in \<lparr>exercises = exs,
          exercise_count = length exs,
          total_sets_sum = sum_list (map total_sets exs)\<rparr>)"


section \<open>Exercise-name normalisation (src/workout\_parser.py)\<close>

text \<open>
  The table \<^verbatim>\<open>exercise_mapping.json\<close> is configuration outside the source files: it
  is a parameter here, the entries of its \<^verbatim>\<open>'mappings'\<close> dictionary in file order.
  A missing \<^verbatim>\<open>'muscle_groups'\<close> or \<^verbatim>\<open>'variations'\<close> list reads as the empty list
  (\<^verbatim>\<open>.get(..., [])\<close>).
\<close>

record mapping_data =
  normalized :: "string option"
  muscle_groups :: "string list"
  variations :: "string list"

type_synonym exercise_mapping = "(string \<times> mapping_data) list"

definition mapping_result :: "string \<Rightarrow> mapping_data \<Rightarrow> string \<times> string list" where
  "mapping_result exercise_name md =
     ((case normalized md of None \<Rightarrow> exercise_name | Some n \<Rightarrow> n), muscle_groups md)"

definition normalize_exercise_name :: "exercise_mapping \<Rightarrow> string \<Rightarrow> string \<times> string list" where
  "normalize_exercise_name mapping exercise_name =
     (let exercise_name_lower = strip (lower exercise_name)
      in case map_of mapping exercise_name_lower of
           Some md \<Rightarrow> mapping_result exercise_name md
         | None \<Rightarrow>
             (case find (\<lambda>(key, md).
                           list_ex (\<lambda>v. lower v = exercise_name_lower
                                          \<or> contains (lower v) exercise_name_lower)
                                   (variations md))
                        mapping of
                Some (key, md) \<Rightarrow> mapping_result exercise_name md
              | None \<Rightarrow> (exercise_name, [])))"

text \<open>
  \<^verbatim>\<open>extract_muscle_groups_from_exercises(exercises)\<close> with no knowledge base, as the
  recovery check calls it: the set of mapped groups, as a list without repetitions.
\<close>

definition extract_muscle_groups_from_exercises ::
    "exercise_mapping \<Rightarrow> parsed_exercise list \<Rightarrow> string list" where
  "extract_muscle_groups_from_exercises mapping exs =
     remdups (concat (map (\<lambda>ex. snd (normalize_exercise_name mapping (exercise ex))) exs))"

section \<open>Workout dates (src/app.py)\<close>

text \<open>
  A \<^verbatim>\<open>datetime\<close> is its year and its position on the time line in microseconds.
  \<^verbatim>\<open>(a - b).days\<close> is the floor of the difference in days. The library function
  \<^verbatim>\<open>datetime.strptime\<close> is a parameter: it takes the string and a format and returns
  \<open>None\<close> where Python raises.
\<close>

record datetime =
  year :: int
  instant :: int

record workout =
  date :: string
  wtext :: string

definition days_between :: "datetime \<Rightarrow> datetime \<Rightarrow> int" where
  "days_between a b = (instant a - instant b) div 86400000000"

definition date_formats :: "string list" where
  "date_formats =
     [''%m/%d/%y %I:%M %p'', ''%m/%d/%Y %I:%M %p'', ''%m/%d/%y %H:%M'', ''%m/%d/%Y %H:%M'',
      ''%m/%d/%y'', ''%Y-%m-%d'', ''%m-%d-%y'', ''%m/%d/%Y'']"

text \<open>
  The loop \<^verbatim>\<open>for fmt in [...]\<close>: a format that raises, or whose date is implausible
  (year beyond next year, or more than one day ahead of now), passes the turn to the next
  format; the first plausible date wins.
\<close>

fun try_formats ::
    "datetime \<Rightarrow> (string \<Rightarrow> string \<Rightarrow> datetime option) \<Rightarrow> string \<Rightarrow> string list \<Rightarrow> datetime option" where
  "try_formats today strptime s [] = None"
| "try_formats today strptime s (fmt # fmts) =
     (case strptime s fmt of
        None \<Rightarrow> try_formats today strptime s fmts
      | Some parsed_date \<Rightarrow>
          if year parsed_date > year today + 1 \<or> days_between parsed_date today > 1
          then try_formats today strptime s fmts
          else Some parsed_date)"

definition parse_workout_date ::
    "datetime \<Rightarrow> (string \<Rightarrow> string \<Rightarrow> datetime option) \<Rightarrow> string \<Rightarrow> datetime option" where
  "parse_workout_date today strptime workout_date_str =
     (if workout_date_str = [] then None
      else try_formats today strptime workout_date_str date_formats)"

section \<open>History before a workout and PR detection (src/app.py, build\_search\_index)\<close>

record history_record =
  best_weight :: nat
  best_reps :: nat
  best_weight_reps :: nat

definition exercise_key :: "parsed_exercise \<Rightarrow> string" where
  "exercise_key ex = strip (lower (exercise ex))"

text \<open>The body of \<^verbatim>\<open>for ex in prev_parsed_exercises\<close>.\<close>

definition record_exercise ::
    "parsed_exercise \<Rightarrow> (string \<rightharpoonup> history_record) \<Rightarrow> (string \<rightharpoonup> history_record)" where
  "record_exercise ex history =
     (case history (exercise_key ex) of
        None \<Rightarrow>
          history(exercise_key ex \<mapsto>
            \<lparr>best_weight = max_weight ex,
             best_reps = first_reps ex,
             best_weight_reps = (if max_weight ex > 0 then first_reps ex else 0)\<rparr>)
      | Some h \<Rightarrow>
          (let h1 = (if max_weight ex > best_weight h
                     then h\<lparr>best_weight := max_weight ex, best_weight_reps := first_reps ex\<rparr>
                     else h);
               h2 = (if first_reps ex > best_reps h1 then h1\<lparr>best_reps := first_reps ex\<rparr> else h1)
           in history(exercise_key ex \<mapsto> h2)))"

text \<open>
  The loop \<^verbatim>\<open>for prev_workout in workouts\<close>, entered with the parsed date of the
  reference workout: a workout counts when its own date parses and is strictly earlier.
\<close>

definition record_workout ::
    "datetime \<Rightarrow> (string \<Rightarrow> string \<Rightarrow> datetime option) \<Rightarrow> datetime \<Rightarrow> workout
      \<Rightarrow> (string \<rightharpoonup> history_record) \<Rightarrow> (string \<rightharpoonup> history_record)" where
  "record_workout today strptime workout_date prev_workout history =
     (case parse_workout_date today strptime (date prev_workout) of
        None \<Rightarrow> history
      | Some prev_date \<Rightarrow>
          if instant prev_date < instant workout_date
          then fold record_exercise (exercises (parse_workout_text (wtext prev_workout))) history
          else history)"

definition history_before ::
    "datetime \<Rightarrow> (string \<Rightarrow> string \<Rightarrow> datetime option) \<Rightarrow> workout list \<Rightarrow> datetime
      \<Rightarrow> (string \<rightharpoonup> history_record)" where
  "history_before today strptime workouts workout_date =
     fold (record_workout today strptime workout_date) workouts Map.empty"

text \<open>
  The body of \<^verbatim>\<open>for ex in current_parsed_exercises\<close>: whether this exercise sets
  \<^verbatim>\<open>has_pr\<close>, and whether it sets \<^verbatim>\<open>has_strength_increase\<close>.
\<close>

definition check_exercise :: "(string \<rightharpoonup> history_record) \<Rightarrow> parsed_exercise \<Rightarrow> bool \<times> bool" where
  "check_exercise history ex =
     (let current_weight = max_weight ex;
          current_reps = first_reps ex;
          bodyweight = (is_bodyweight ex \<or> current_weight = 0)
      in case history (exercise_key ex) of
           None \<Rightarrow> (False, False)
         | Some hist \<Rightarrow>
             if bodyweight then (current_reps > best_reps hist, False)
             else if current_weight > best_weight hist then (True, False)
             else if current_weight = best_weight hist \<and> current_reps > best_weight_reps hist
             then (False, True)
             else (False, False))"

definition check_exercises ::
    "(string \<rightharpoonup> history_record) \<Rightarrow> parsed_exercise list \<Rightarrow> bool \<times> bool" where
  "check_exercises history exs =
     fold (\<lambda>ex flags. (fst flags \<or> fst (check_exercise history ex),
                        snd flags \<or> snd (check_exercise history ex)))
          exs (False, False)"

text \<open>
  The history of one pass of \<^verbatim>\<open>for i, workout in enumerate(workouts)\<close>. When the date
  of the workout does not parse the source builds no dictionary at all; the model has the
  empty one, in which no key has a record.
\<close>

definition workout_history ::
    "datetime \<Rightarrow> (string \<Rightarrow> string \<Rightarrow> datetime option) \<Rightarrow> workout list \<Rightarrow> workout
      \<Rightarrow> (string \<rightharpoonup> history_record)" where
  "workout_history today strptime workouts w =
     (case parse_workout_date today strptime (date w) of
        None \<Rightarrow> Map.empty
      | Some workout_date \<Rightarrow> history_before today strptime workouts workout_date)"

text \<open>The pair \<^verbatim>\<open>(has_pr, has_strength_increase)\<close> the pass stores on the workout.\<close>

definition detect_pr ::
    "datetime \<Rightarrow> (string \<Rightarrow> string \<Rightarrow> datetime option) \<Rightarrow> workout list \<Rightarrow> workout \<Rightarrow> bool \<times> bool" where
  "detect_pr today strptime workouts w =
     (case parse_workout_date today strptime (date w) of
        None \<Rightarrow> (False, False)
      | Some workout_date \<Rightarrow>
          check_exercises (history_before today strptime workouts workout_date)
            (exercises (parse_workout_text (wtext w))))"

text \<open>
  For the statements below: the exercise lines of the workouts that count for the
  history, in the order the loops visit them.
\<close>

definition earlier_exercises ::
    "datetime \<Rightarrow> (string \<Rightarrow> string \<Rightarrow> datetime option) \<Rightarrow> workout list \<Rightarrow> datetime
      \<Rightarrow> parsed_exercise list" where
  "earlier_exercises today strptime workouts workout_date =
     concat (map (\<lambda>w. exercises (parse_workout_text (wtext w)))
       (filter (\<lambda>w. case parse_workout_date today strptime (date w) of
                       None \<Rightarrow> False
                     | Some prev_date \<Rightarrow> instant prev_date < instant workout_date)
               workouts))"

text \<open>
  What \<^verbatim>\<open>record_exercise\<close> does to the record of the key of the exercise, and the
  record that a list of exercise lines of one key adds up to.
\<close>

definition updated_record :: "parsed_exercise \<Rightarrow> history_record option \<Rightarrow> history_record" where
  "updated_record ex v =
     (case v of
        None \<Rightarrow>
          \<lparr>best_weight = max_weight ex,
           best_reps = first_reps ex,
           best_weight_reps = (if max_weight ex > 0 then first_reps ex else 0)\<rparr>
      | Some h \<Rightarrow>
          (let h1 = (if max_weight ex > best_weight h
                     then h\<lparr>best_weight := max_weight ex, best_weight_reps := first_reps ex\<rparr>
                     else h)
           in if first_reps ex > best_reps h1 then h1\<lparr>best_reps := first_reps ex\<rparr> else h1))"

definition best_of :: "parsed_exercise list \<Rightarrow> history_record option" where
  "best_of es =
     (if es = [] then None
      else Some \<lparr>best_weight = Max (set (map max_weight es)),
                 best_reps = Max (set (map first_reps es)),
                 best_weight_reps =
                   (if Max (set (map max_weight es)) > 0
                    then first_reps (hd (filter (\<lambda>ex. max_weight ex = Max (set (map max_weight es))) es))
                    else 0)\<rparr>)"

section \<open>Progressive overload (src/app.py)\<close>

text \<open>
  The two endpoints \<^verbatim>\<open>progressive_overload\<close> and
  \<^verbatim>\<open>progressive_overload_suggestions\<close> compute, for a weighted exercise with a
  last performance (\<^verbatim>\<open>last_perf['weight'] > 0\<close>), a new weight and a new rep count.
  Weights and reps come from the line parser and are Python integers. The arithmetic in
  between is floating point (\<^verbatim>\<open>last_weight * 0.025\<close>, division by 2.5 or 5,
  \<^verbatim>\<open>round\<close>, \<^verbatim>\<open>int\<close>); it is modelled with exact rationals.
  \<^verbatim>\<open>round\<close> with one argument rounds to the nearest integer, halves to the even
  neighbour; \<^verbatim>\<open>int\<close> truncates towards zero.
\<close>

definition py_round :: "rat \<Rightarrow> int" where
  "py_round x =
     (let f = \<lfloor>x\<rfloor>; d = x - of_int f
      in if d < 1 / 2 then f
         else if 1 / 2 < d then f + 1
         else if even f then f else f + 1)"

definition py_int :: "rat \<Rightarrow> int" where
  "py_int x = (if 0 \<le> x then \<lfloor>x\<rfloor> else \<lceil>x\<rceil>)"


text \<open>
  \<^verbatim>\<open>progressive_overload_suggestions\<close>, the branch for weighted exercises
  (\<^verbatim>\<open>last_perf and last_perf['weight'] > 0\<close>): the pair
  \<^verbatim>\<open>(suggested_weight, suggested_reps)\<close>.
\<close>

definition progressive_overload_suggestions :: "int \<Rightarrow> int \<Rightarrow> int \<Rightarrow> int \<times> int" where
  "progressive_overload_suggestions last_weight last_reps days_ago =
     (if days_ago \<le> 14 then
        (if last_reps < 6 then (last_weight, min (last_reps + 1) 6)
         else
           (let weight_increase = max (of_int last_weight * (25 / 1000)) (5 / 2);
                new_weight = of_int last_weight + weight_increase;
                suggested_weight =
                  py_int (if last_weight < 50
                          then of_int (py_round (new_weight / (5 / 2))) * (5 / 2)
                          else of_int (py_round (new_weight / 5) * 5));
                suggested_weight =
                  (if suggested_weight \<le> last_weight
                   then py_int (if last_weight < 50 then of_int last_weight + 5 / 2
                                else of_int last_weight + 5)
                   else suggested_weight)
            in (suggested_weight, 5)))
      else if days_ago \<le> 30 then (last_weight, last_reps)
      else
        (let weight_decrease = of_int last_weight * (5 / 100);
             suggested_weight =
               (if last_weight < 50
                then max 1 (py_int (of_int (py_round ((of_int last_weight - weight_decrease) / (5 / 2))) * (5 / 2)))
                else max 1 (py_int (of_int (py_round ((of_int last_weight - weight_decrease) / 5) * 5))))
         in (suggested_weight, if last_reps > 1 then max 1 (last_reps - 1) else last_reps)))"


section \<open>Recovery status (src/app.py, recovery\_check)\<close>

text \<open>
  The groups of one workout of the window: the mapped groups, then the groups inferred
  from the lowercased exercise names.
\<close>

definition inferred_groups :: "string \<Rightarrow> string list" where
  "inferred_groups ex_name =
     (if list_ex (\<lambda>word. contains word ex_name) [''squat'', ''lunge'', ''split'', ''hip'', ''glute'']
      then [''glutes''] else [])
     @ (if contains ''calf'' ex_name then [''calves''] else [])
     @ (if list_ex (\<lambda>word. contains word ex_name) [''crunch'', ''sit-up'', ''plank'', ''ab'', ''core'']
        then [''abs''] else [])"

definition workout_muscle_groups :: "exercise_mapping \<Rightarrow> string \<Rightarrow> string list" where
  "workout_muscle_groups mapping workout_text =
     (let exs = exercises (parse_workout_text workout_text)
      in extract_muscle_groups_from_exercises mapping exs
         @ concat (map (\<lambda>ex. inferred_groups (lower (exercise ex))) exs))"

text \<open>
  The body of \<^verbatim>\<open>for group in muscle_groups\<close>: keep the smallest
  \<^verbatim>\<open>days_ago\<close> per group.
\<close>

definition track_group :: "int \<Rightarrow> string \<Rightarrow> (string \<rightharpoonup> int) \<Rightarrow> (string \<rightharpoonup> int)" where
  "track_group days_ago g last_trained =
     (case last_trained g of
        None \<Rightarrow> last_trained(g \<mapsto> days_ago)
      | Some d \<Rightarrow> if days_ago < d then last_trained(g \<mapsto> days_ago) else last_trained)"

text \<open>
  One workout of the window, once its date is parsed: \<^verbatim>\<open>days_ago\<close> and its groups.
  A workout more than 14 days back is skipped.
\<close>

definition track_entry :: "int \<times> string list \<Rightarrow> (string \<rightharpoonup> int) \<Rightarrow> (string \<rightharpoonup> int)" where
  "track_entry entry last_trained =
     (if fst entry > 14 then last_trained
      else fold (track_group (fst entry)) (snd entry) last_trained)"

definition window_entries ::
    "datetime \<Rightarrow> (string \<Rightarrow> string \<Rightarrow> datetime option) \<Rightarrow> exercise_mapping \<Rightarrow> workout list
      \<Rightarrow> (int \<times> string list) list" where
  "window_entries today strptime mapping workouts =
     List.map_filter
       (\<lambda>w. case parse_workout_date today strptime (date w) of
               None \<Rightarrow> None
             | Some workout_date \<Rightarrow>
                 Some (days_between today workout_date, workout_muscle_groups mapping (wtext w)))
       (take 20 workouts)"

definition muscle_group_last_trained :: "(int \<times> string list) list \<Rightarrow> (string \<rightharpoonup> int)" where
  "muscle_group_last_trained entries = fold track_entry entries Map.empty"

definition all_groups :: "string list" where
  "all_groups =
     [''chest'', ''back'', ''shoulders'', ''arms'', ''biceps'', ''triceps'',
      ''legs'', ''glutes'', ''calves'', ''core'', ''abs'']"

record recovery =
  too_soon :: "(string \<times> int option) list"
  optimal :: "(string \<times> int option) list"
  ready :: "(string \<times> int option) list"
  neglected :: "(string \<times> int option) list"

text \<open>The body of \<^verbatim>\<open>for group in all_groups\<close>.\<close>

definition categorize_group :: "(string \<rightharpoonup> int) \<Rightarrow> string \<Rightarrow> recovery \<Rightarrow> recovery" where
  "categorize_group last_trained g r =
     (case last_trained g of
        Some days \<Rightarrow>
          if days \<le> 1 then r\<lparr>too_soon := too_soon r @ [(g, Some days)]\<rparr>
          else if days \<le> 3 then r\<lparr>optimal := optimal r @ [(g, Some days)]\<rparr>
          else if days \<le> 6 then r\<lparr>ready := ready r @ [(g, Some days)]\<rparr>
          else r\<lparr>neglected := neglected r @ [(g, Some days)]\<rparr>
      | None \<Rightarrow> r\<lparr>neglected := neglected r @ [(g, None)]\<rparr>)"

definition categorize :: "(string \<rightharpoonup> int) \<Rightarrow> string list \<Rightarrow> recovery" where
  "categorize last_trained groups =
     fold (categorize_group last_trained) groups
       \<lparr>too_soon = [], optimal = [], ready = [], neglected = []\<rparr>"

definition filter_neglected :: "(string \<times> int option) list \<Rightarrow> (string \<times> int option) list" where
  "filter_neglected negl =
     filter (\<lambda>entry. \<not> (fst entry = ''arms''
                          \<and> (''biceps'' \<in> set (map fst negl) \<or> ''triceps'' \<in> set (map fst negl))))
            negl"

definition recovery_status :: "(string \<rightharpoonup> int) \<Rightarrow> recovery" where
  "recovery_status last_trained =
     (let r = categorize last_trained all_groups
      in r\<lparr>neglected := filter_neglected (neglected r)\<rparr>)"

definition recovery_check ::
    "datetime \<Rightarrow> (string \<Rightarrow> string \<Rightarrow> datetime option) \<Rightarrow> exercise_mapping \<Rightarrow> workout list \<Rightarrow> recovery" where
  "recovery_check today strptime mapping workouts =
     recovery_status (muscle_group_last_trained (window_entries today strptime mapping workouts))"

text \<open>
  For the statements below: the \<^verbatim>\<open>days_ago\<close> values of the workouts of the window
  (at most 14 days back) that trained a group, the smallest of them, and the groups of a
  list whose value satisfies a test, each paired with its value.
\<close>

definition days_seen :: "string \<Rightarrow> (int \<times> string list) list \<Rightarrow> int list" where
  "days_seen g entries = map fst (filter (\<lambda>entry. fst entry \<le> 14 \<and> g \<in> set (snd entry)) entries)"

definition smallest_days_ago :: "(int \<times> string list) list \<Rightarrow> string \<Rightarrow> int option" where
  "smallest_days_ago entries g =
     (if days_seen g entries = [] then None else Some (Min (set (days_seen g entries))))"

definition bucket :: "(string \<Rightarrow> int option) \<Rightarrow> (int option \<Rightarrow> bool) \<Rightarrow> string list \<Rightarrow> (string \<times> int option) list" where
  "bucket m P groups = map (\<lambda>g. (g, m g)) (filter (\<lambda>g. P (m g)) groups)"

section \<open>Incremental index update (src/app.py, update\_index\_for\_workout)\<close>

text \<open>
  The index file: a dictionary from category names to lists of workout positions, and the
  entry \<^verbatim>\<open>'_metadata'\<close>. The function loads the file, changes the dictionary and
  saves it; the model maps the content of the file before the call to its content after.
  What the call reads from outside, the mapping table, the hash of the workout log and the
  clock, are parameters.
\<close>

record index_metadata =
  workout_hash :: string
  workout_count :: int
  last_updated :: string

record search_index =
  categories :: "string \<rightharpoonup> int list"
  metadata :: "index_metadata option"

record workout_data = workout +
  has_pr :: bool

definition rule_based_categories :: "string list" where
  "rule_based_categories = [''PR personal record'', ''chest workout'', ''full body'']"

text \<open>
  \<^verbatim>\<open>if category in index and workout_index in index[category]:
  index[category].remove(workout_index)\<close>; \<^verbatim>\<open>list.remove\<close> deletes the first
  occurrence.
\<close>

definition remove_position :: "int \<Rightarrow> string \<Rightarrow> (string \<rightharpoonup> int list) \<Rightarrow> (string \<rightharpoonup> int list)" where
  "remove_position workout_index category cats =
     (case cats category of
        None \<Rightarrow> cats
      | Some xs \<Rightarrow>
          if workout_index \<in> set xs then cats(category \<mapsto> remove1 workout_index xs) else cats)"

text \<open>
  \<^verbatim>\<open>if category not in index: index[category] = []\<close> and then
  \<^verbatim>\<open>if workout_index not in index[category]: index[category].append(workout_index)\<close>.
\<close>

definition add_position :: "int \<Rightarrow> string \<Rightarrow> (string \<rightharpoonup> int list) \<Rightarrow> (string \<rightharpoonup> int list)" where
  "add_position workout_index category cats =
     (case cats category of
        None \<Rightarrow> cats(category \<mapsto> [workout_index])
      | Some xs \<Rightarrow>
          if workout_index \<in> set xs then cats else cats(category \<mapsto> xs @ [workout_index]))"

definition add_to_categories ::
    "exercise_mapping \<Rightarrow> int \<Rightarrow> 'a workout_data_scheme \<Rightarrow> (string \<rightharpoonup> int list) \<Rightarrow> (string \<rightharpoonup> int list)" where
  "add_to_categories mapping workout_index wd cats =
     (let cats1 = (if has_pr wd then add_position workout_index ''PR personal record'' cats
                   else cats);
          exs = exercises (parse_workout_text (wtext wd))
      in if exs = [] then cats1
         else
           (let mapped = map (\<lambda>ex. snd (normalize_exercise_name mapping (exercise ex))) exs;
                groups = remdups (concat mapped);
                has_chest = list_ex (\<lambda>gs. ''chest'' \<in> set gs) mapped;
                cats2 = (if has_chest then add_position workout_index ''chest workout'' cats1
                         else cats1)
            in if length groups \<ge> 3 then add_position workout_index ''full body'' cats2
               else cats2))"

definition update_index_for_workout ::
    "exercise_mapping \<Rightarrow> string \<Rightarrow> string \<Rightarrow> int \<Rightarrow> 'a workout_data_scheme \<Rightarrow> string
      \<Rightarrow> search_index \<Rightarrow> search_index" where
  "update_index_for_workout mapping new_hash now workout_index wd operation index =
     (case metadata index of
        None \<Rightarrow> index
      | Some md \<Rightarrow>
          \<lparr>categories =
             (if operation = ''add'' \<or> operation = ''update'' then
                add_to_categories mapping workout_index wd
                  (fold (remove_position workout_index) rule_based_categories (categories index))
              else if operation = ''remove'' then
                fold (remove_position workout_index) rule_based_categories (categories index)
              else categories index),
           metadata = Some (md\<lparr>workout_hash := new_hash, last_updated := now\<rparr>)\<rparr>)"

text \<open>
  For the statements below: whether the facts of a workout put it into a rule-based
  category, what one \<^verbatim>\<open>'add'\<close> does to the list of such a category, and an index
  whose rule-based lists have no position twice.
\<close>

definition qualifies :: "exercise_mapping \<Rightarrow> 'a workout_data_scheme \<Rightarrow> string \<Rightarrow> bool" where
  "qualifies mapping wd c =
     (let exs = exercises (parse_workout_text (wtext wd));
          mapped = map (\<lambda>ex. snd (normalize_exercise_name mapping (exercise ex))) exs
      in if c = ''PR personal record'' then has_pr wd
         else if c = ''chest workout'' then exs \<noteq> [] \<and> list_ex (\<lambda>gs. ''chest'' \<in> set gs) mapped
         else if c = ''full body'' then exs \<noteq> [] \<and> length (remdups (concat mapped)) \<ge> 3
         else False)"

definition add_once :: "bool \<Rightarrow> int \<Rightarrow> int list option \<Rightarrow> int list option" where
  "add_once q i v =
     (if q then Some (case map_option (remove1 i) v of
                        None \<Rightarrow> [i]
                      | Some ys \<Rightarrow> if i \<in> set ys then ys else ys @ [i])
      else map_option (remove1 i) v)"


section \<open>Example data\<close>

definition example_strptime :: "string \<Rightarrow> string \<Rightarrow> datetime option" where
  "example_strptime s fmt =
     (if fmt = ''%m/%d/%y'' \<and> s = ''01/01/24'' then Some \<lparr>year = 2024, instant = 0\<rparr>
      else if fmt = ''%m/%d/%y'' \<and> s = ''01/08/24''
        then Some \<lparr>year = 2024, instant = 7 * 86400000000\<rparr>
      else if fmt = ''%m/%d/%y'' \<and> s = ''03/01/24''
        then Some \<lparr>year = 2024, instant = 60 * 86400000000\<rparr>
      else None)"

definition example_today :: datetime where
  "example_today = \<lparr>year = 2024, instant = 30 * 86400000000\<rparr>"



section \<open>Properties of the progressive-overload arithmetic\<close>

lemma py_int_of_int_plus_half: "0 \<le> w \<Longrightarrow> py_int (of_int w + 5 / 2) = w + 2"
  unfolding py_int_def by (simp add: floor_eq_iff)

lemma py_int_of_int_plus_five: "0 \<le> w \<Longrightarrow> py_int (of_int w + 5) = w + 5"
proof -
  assume "0 \<le> w"
  have "(of_int w + 5 :: rat) = of_int (w + 5)" by simp
  then have "\<lfloor>of_int w + 5 :: rat\<rfloor> = w + 5" by (simp only: floor_of_int)
  with \<open>0 \<le> w\<close> show ?thesis unfolding py_int_def by simp
qed

text \<open>
  The suggestions endpoint has the guard \<^verbatim>\<open>if suggested_weight <= last_weight\<close>
  ("Ensure we actually increased"): for a weighted exercise its weight never goes below the
  last weight in the progression tier, and its reps stay within 6.
\<close>

lemma suggestions_progression_bounds:
  assumes "0 < last_weight" and "1 \<le> last_reps" and "last_reps \<le> 12" and "days_ago \<le> 14"
  shows "snd (progressive_overload_suggestions last_weight last_reps days_ago) \<le> 12
       \<and> last_weight \<le> fst (progressive_overload_suggestions last_weight last_reps days_ago)"
proof (cases "last_reps < 6")
  case True
  with assms show ?thesis by (simp add: progressive_overload_suggestions_def)
next
  case False
  from assms have w: "0 \<le> last_weight" by simp
  from False assms show ?thesis
    by (simp add: progressive_overload_suggestions_def Let_def
        py_int_of_int_plus_half [OF w] py_int_of_int_plus_five [OF w])
qed




section \<open>Properties of the line parser\<close>

text \<open>
  Claim C10. A line whose stripped text starts with \<^verbatim>\<open>SKIP\<close> or with
  \<^verbatim>\<open>run\<close> gives \<open>None\<close>, whatever follows.
\<close>

theorem skip_or_run_line_dropped:
  assumes "prefix ''SKIP'' (strip line) \<or> prefix ''run'' (strip line)"
  shows "parse_exercise_line line = None"
  using assms by (simp add: parse_exercise_line_def Let_def)

text \<open>
  The line \<^verbatim>\<open>running lunges - 50 * 10\<close> is dropped, although the weight-times-reps
  branch would accept it.
\<close>

theorem skip_or_run_line_dropped_witness:
  "prefix ''run'' (strip ''running lunges - 50 * 10'')
   \<and> parse_weighted (strip ''running lunges - 50 * 10'') \<noteq> None
   \<and> parse_exercise_line ''running lunges - 50 * 10'' = None"
proof -
  have h: "prefix ''run'' (strip ''running lunges - 50 * 10'')" by code_simp
  have g: "parse_weighted (strip ''running lunges - 50 * 10'') \<noteq> None" by code_simp
  from h have "prefix ''SKIP'' (strip ''running lunges - 50 * 10'')
      \<or> prefix ''run'' (strip ''running lunges - 50 * 10'')" by (rule disjI2)
  from skip_or_run_line_dropped [OF this] h g show ?thesis by (intro conjI)
qed

subsection \<open>Characters\<close>




subsection \<open>Printing and reading numbers\<close>








subsection \<open>strip\<close>

lemma strip_id:
  assumes "s \<noteq> []" and "\<not> is_space (hd s)" and "\<not> is_space (last s)"
  shows "strip s = s"
proof -
  from assms(1,2) have a: "dropWhile is_space s = s" by (cases s) simp_all
  from assms(1,3) have "dropWhile is_space (rev s) = rev s"
    by (cases "rev s") (simp_all add: last_rev [symmetric] hd_rev)
  with a show ?thesis by (simp add: strip_def)
qed

lemma strip_ends:
  assumes "strip s \<noteq> []"
  shows "\<not> is_space (hd (strip s))" and "\<not> is_space (last (strip s))"
proof -
  let ?t = "dropWhile is_space s"
  let ?u = "dropWhile is_space (rev ?t)"
  from assms have u: "?u \<noteq> []" by (simp add: strip_def)
  have t: "?t \<noteq> []"
  proof
    assume "?t = []"
    with u show False by simp
  qed
  from u have "\<not> is_space (hd ?u)" by (rule hd_dropWhile)
  then show "\<not> is_space (last (strip s))" by (simp add: strip_def last_rev)
  have "rev ?t = takeWhile is_space (rev ?t) @ ?u" by simp
  then have "last (rev ?t) = last ?u" using u by (metis last_appendR)
  then have "last ?u = hd ?t" using t by (simp add: last_rev)
  moreover from t have "\<not> is_space (hd ?t)" by (rule hd_dropWhile)
  ultimately show "\<not> is_space (hd (strip s))" by (simp add: strip_def hd_rev)
qed

lemma strip_strip: "strip (strip s) = strip s"
proof (cases "strip s = []")
  case True
  have "strip [] = []" by (simp add: strip_def)
  with True show ?thesis by simp
next
  case False
  from strip_id [OF False strip_ends [OF False]] show ?thesis .
qed



subsection \<open>Splitting\<close>






subsection \<open>The patterns\<close>
















section \<open>Properties of the history and of PR detection\<close>

text \<open>
  Claim C4. For one exercise of a workout, checked against a history, the PR flag and the
  strength-increase flag are never both set by that exercise.
\<close>

theorem pr_and_strength_increase_exclusive:
  "\<not> (fst (check_exercise history ex) \<and> snd (check_exercise history ex))"
  by (simp add: check_exercise_def Let_def split: option.split)

lemma try_formats_none:
  assumes "list_all (\<lambda>fmt. case strptime s fmt of
                              None \<Rightarrow> True
                            | Some d \<Rightarrow> year d > year today + 1 \<or> days_between d today > 1) fmts"
  shows "try_formats today strptime s fmts = None"
  using assms by (induction fmts) (auto split: option.splits)

text \<open>
  Claim C6. When the date string of the reference workout parses under none of the
  accepted formats, or every format that parses it gives an implausible date (year beyond
  next year, more than one day ahead), the history is empty and neither a PR nor a
  strength increase is flagged for the workout, whatever the collection holds.
\<close>

theorem unparseable_date_no_history:
  assumes "list_all (\<lambda>fmt. case strptime (date w) fmt of
                              None \<Rightarrow> True
                            | Some d \<Rightarrow> year d > year today + 1 \<or> days_between d today > 1)
                    date_formats"
  shows "workout_history today strptime workouts w = Map.empty
       \<and> detect_pr today strptime workouts w = (False, False)"
proof -
  from assms have "parse_workout_date today strptime (date w) = None"
    unfolding parse_workout_date_def by (simp add: try_formats_none)
  then show ?thesis by (simp add: workout_history_def detect_pr_def)
qed

text \<open>
  A workout dated 30 days ahead of now, with a lighter bench press logged earlier: the date
  is rejected, so nothing is flagged.
\<close>

theorem unparseable_date_no_history_witness:
  "list_all (\<lambda>fmt. case example_strptime
                            (date \<lparr>date = ''03/01/24'', wtext = ''bench press - 105 * 5''\<rparr>) fmt of
                       None \<Rightarrow> True
                     | Some d \<Rightarrow> year d > year example_today + 1
                                \<or> days_between d example_today > 1)
            date_formats
   \<and> workout_history example_today example_strptime
        [\<lparr>date = ''03/01/24'', wtext = ''bench press - 105 * 5''\<rparr>,
         \<lparr>date = ''01/01/24'', wtext = ''bench press - 100 * 5''\<rparr>]
        \<lparr>date = ''03/01/24'', wtext = ''bench press - 105 * 5''\<rparr> = Map.empty
   \<and> detect_pr example_today example_strptime
        [\<lparr>date = ''03/01/24'', wtext = ''bench press - 105 * 5''\<rparr>,
         \<lparr>date = ''01/01/24'', wtext = ''bench press - 100 * 5''\<rparr>]
        \<lparr>date = ''03/01/24'', wtext = ''bench press - 105 * 5''\<rparr> = (False, False)"
  (is "?H \<and> ?A \<and> ?B")
proof -
  have h: ?H
    by (simp add: date_formats_def days_between_def example_strptime_def example_today_def)
  have "?A \<and> ?B"
    using h
    by (rule unparseable_date_no_history
          [where strptime = example_strptime and today = example_today
             and w = "\<lparr>date = ''03/01/24'', wtext = ''bench press - 105 * 5''\<rparr>"])
  with h show ?thesis by (intro conjI) simp_all
qed

lemma record_exercise_eq:
  "record_exercise ex history =
     history(exercise_key ex \<mapsto> updated_record ex (history (exercise_key ex)))"
  by (simp add: record_exercise_def updated_record_def Let_def split: option.split)

lemma fold_record_exercise_at:
  "fold record_exercise es history k =
     fold (\<lambda>ex v. Some (updated_record ex v)) (filter (\<lambda>ex. exercise_key ex = k) es) (history k)"
  by (induction es arbitrary: history) (simp_all add: record_exercise_eq)

lemma fold_record_workout:
  "fold (record_workout today strptime workout_date) workouts history =
     fold record_exercise (earlier_exercises today strptime workouts workout_date) history"
  by (induction workouts arbitrary: history)
     (simp_all add: earlier_exercises_def record_workout_def split: option.split)

lemma Max_snoc:
  "xs \<noteq> [] \<Longrightarrow> Max (set (map f (xs @ [x]))) = max (f x) (Max (set (map f xs)))"
  by simp

lemma Max_attained:
  assumes "es \<noteq> []"
  shows "filter (\<lambda>ex. f ex = Max (set (map f es))) es \<noteq> []"
proof -
  from assms have "Max (set (map f es)) \<in> set (map f es)" by (intro Max_in) simp_all
  then obtain e where "e \<in> set es" and "f e = Max (set (map f es))" by auto
  then show ?thesis by (auto simp: filter_empty_conv)
qed

lemma best_of_snoc: "best_of (es @ [e]) = Some (updated_record e (best_of es))"
proof (cases "es = []")
  case True
  then show ?thesis by (simp add: best_of_def updated_record_def)
next
  case False
  define M where "M = Max (set (map max_weight es))"
  define R where "R = Max (set (map first_reps es))"
  define F where "F = filter (\<lambda>ex. max_weight ex = M) es"
  have M': "Max (set (map max_weight (es @ [e]))) = max (max_weight e) M"
    unfolding M_def by (rule Max_snoc [OF False])
  have R': "Max (set (map first_reps (es @ [e]))) = max (first_reps e) R"
    unfolding R_def by (rule Max_snoc [OF False])
  have ge: "max_weight x \<le> M" if "x \<in> set es" for x
    unfolding M_def using that by simp
  have Fne: "F \<noteq> []"
    unfolding F_def M_def by (rule Max_attained [OF False])
  have b: "best_of es = Some \<lparr>best_weight = M, best_reps = R,
      best_weight_reps = (if M > 0 then first_reps (hd F) else 0)\<rparr>"
    unfolding best_of_def M_def [symmetric] R_def [symmetric] F_def [symmetric]
    using False by simp
  have b': "best_of (es @ [e]) = Some \<lparr>best_weight = max (max_weight e) M,
      best_reps = max (first_reps e) R,
      best_weight_reps =
        (if max (max_weight e) M > 0
         then first_reps (hd (filter (\<lambda>ex. max_weight ex = max (max_weight e) M) (es @ [e])))
         else 0)\<rparr>"
    unfolding best_of_def M' R' by simp
  show ?thesis
  proof (cases "max_weight e > M")
    case True
    have "filter (\<lambda>ex. max_weight ex = max_weight e) es = []"
      unfolding filter_empty_conv
    proof
      fix x assume "x \<in> set es"
      from ge [OF this] True show "max_weight x \<noteq> max_weight e" by simp
    qed
    with True show ?thesis
      unfolding b b' by (simp add: updated_record_def max_def)
  next
    case le: False
    then have mx: "max (max_weight e) M = M" by simp
    have "hd (filter (\<lambda>ex. max_weight ex = M) (es @ [e])) = hd F"
      using Fne by (simp add: F_def)
    with le show ?thesis
      unfolding b b' mx by (simp add: updated_record_def max_def)
  qed
qed

lemma fold_updated_record: "fold (\<lambda>ex v. Some (updated_record ex v)) es None = best_of es"
proof (induction es rule: rev_induct)
  case Nil
  show ?case by (simp add: best_of_def)
next
  case (snoc e es)
  then show ?case by (simp add: best_of_snoc)
qed

lemma max_of_Max: "xs \<noteq> [] \<Longrightarrow> max_of xs = Max (set xs)"
  by (cases xs) (simp_all add: max_of_def Max.set_eq_fold [symmetric])

text \<open>
  What the parser stores in a line's summary: \<^verbatim>\<open>max_weight\<close> is the largest weight of
  its sets and \<^verbatim>\<open>first_reps\<close> the reps of its first set.
\<close>

lemma parsed_line_fields:
  assumes "parse_exercise_line line = Some ex"
  shows "sets ex \<noteq> []
       \<and> max_weight ex = Max (set (map weight (sets ex)))
       \<and> first_reps ex = reps (hd (sets ex))"
proof (cases "parse_bodyweight (strip line)")
  case None
  with assms have "parse_weighted (strip line) = Some ex"
    by (simp add: parse_exercise_line_def Let_def split: if_splits)
  then show ?thesis
    by (auto simp: parse_weighted_def Let_def max_of_Max split: option.splits if_splits)
next
  case (Some r)
  with assms have "parse_bodyweight (strip line) = Some ex"
    by (simp add: parse_exercise_line_def Let_def split: if_splits)
  then obtain g1 g2 where ex: "ex = \<lparr>exercise = strip g1,
        sets = map (\<lambda>r. \<lparr>weight = 0, reps = r\<rparr>)
                 (map (\<lambda>r. py_int_of (strip r))
                    (filter (\<lambda>r. isdigit (strip r)) (split_char CHR '','' g2))),
        first_weight = 0,
        first_reps = hd (map (\<lambda>r. py_int_of (strip r))
                           (filter (\<lambda>r. isdigit (strip r)) (split_char CHR '','' g2))),
        total_sets = length (map (\<lambda>r. py_int_of (strip r))
                           (filter (\<lambda>r. isdigit (strip r)) (split_char CHR '','' g2))),
        max_weight = 0,
        max_reps = max_of (map (\<lambda>r. py_int_of (strip r))
                           (filter (\<lambda>r. isdigit (strip r)) (split_char CHR '','' g2))),
        is_bodyweight = True, original_line = None\<rparr>"
    and ne: "map (\<lambda>r. py_int_of (strip r))
               (filter (\<lambda>r. isdigit (strip r)) (split_char CHR '','' g2)) \<noteq> []"
    unfolding parse_bodyweight_def Let_def
    by (auto split: option.splits if_splits)
  define rs where "rs = map (\<lambda>r. py_int_of (strip r))
               (filter (\<lambda>r. isdigit (strip r)) (split_char CHR '','' g2))"
  from ne have rs: "rs \<noteq> []" by (simp add: rs_def)
  then have "set (map weight (map (\<lambda>r. \<lparr>weight = 0, reps = r\<rparr>) rs)) = {0}"
    by (cases rs) (auto simp: comp_def)
  with rs show ?thesis
    unfolding ex rs_def [symmetric] by (simp add: hd_map)
qed

text \<open>
  Claim C2, as stated: \<^verbatim>\<open>best_reps\<close> is the maximum reps seen and
  \<^verbatim>\<open>best_weight_reps\<close> the rep count observed at the best weight. One earlier workout
  with the lines \<^verbatim>\<open>pull-up 10, 8, 9\<close> and \<^verbatim>\<open>bench press - 100 * 5, 8\<close>: the
  record of the pull-up has \<^verbatim>\<open>best_weight_reps\<close> 0, though the reps at its best weight 0
  were 10, 8 and 9 (the source stores 0 when the weight is 0); the record of the bench press
  has \<^verbatim>\<open>best_reps\<close> 5, though 8 reps were seen (the source takes the reps of the first
  set of a line).
\<close>

theorem history_records_counterexample:
  "parse_workout_date example_today example_strptime ''01/08/24''
     = Some \<lparr>year = 2024, instant = 7 * 86400000000\<rparr>
   \<and> history_before example_today example_strptime
        [\<lparr>date = ''01/08/24'', wtext = ''pull-up 11''\<rparr>,
         \<lparr>date = ''01/01/24'',
          wtext = ''pull-up 10, 8, 9'' @ [CHR 0x0A] @ ''bench press - 100 * 5, 8''\<rparr>]
        \<lparr>year = 2024, instant = 7 * 86400000000\<rparr> ''pull-up''
     = Some \<lparr>best_weight = 0, best_reps = 10, best_weight_reps = 0\<rparr>
   \<and> history_before example_today example_strptime
        [\<lparr>date = ''01/08/24'', wtext = ''pull-up 11''\<rparr>,
         \<lparr>date = ''01/01/24'',
          wtext = ''pull-up 10, 8, 9'' @ [CHR 0x0A] @ ''bench press - 100 * 5, 8''\<rparr>]
        \<lparr>year = 2024, instant = 7 * 86400000000\<rparr> ''bench press''
     = Some \<lparr>best_weight = 100, best_reps = 5, best_weight_reps = 5\<rparr>
   \<and> map (\<lambda>ex. (exercise_key ex, sets ex))
        (earlier_exercises example_today example_strptime
          [\<lparr>date = ''01/08/24'', wtext = ''pull-up 11''\<rparr>,
           \<lparr>date = ''01/01/24'',
            wtext = ''pull-up 10, 8, 9'' @ [CHR 0x0A] @ ''bench press - 100 * 5, 8''\<rparr>]
          \<lparr>year = 2024, instant = 7 * 86400000000\<rparr>)
     = [(''pull-up'', [\<lparr>weight = 0, reps = 10\<rparr>, \<lparr>weight = 0, reps = 8\<rparr>, \<lparr>weight = 0, reps = 9\<rparr>]),
        (''bench press'', [\<lparr>weight = 100, reps = 5\<rparr>, \<lparr>weight = 100, reps = 8\<rparr>])]"
  by code_simp

text \<open>
  Claim C2, amended: in the history before a reference workout, an exercise key has a
  record exactly when a strictly earlier workout has a line of that key; then
  \<^verbatim>\<open>best_weight\<close> is the largest \<^verbatim>\<open>max_weight\<close> of these lines (the largest weight
  seen), \<^verbatim>\<open>best_reps\<close> is the largest first-set rep count of these lines, and
  \<^verbatim>\<open>best_weight_reps\<close> is the first-set rep count of the first visited line with the
  best weight when that weight is positive, and 0 when it is 0 (not the overall maximum of
  the reps).
\<close>

theorem history_before_records:
  "history_before today strptime workouts workout_date k =
     best_of (filter (\<lambda>ex. exercise_key ex = k)
                (earlier_exercises today strptime workouts workout_date))"
  by (simp add: history_before_def fold_record_workout fold_record_exercise_at fold_updated_record)

section \<open>Properties of the incremental index update\<close>

lemma remove_position_other [simp]:
  "k \<noteq> c \<Longrightarrow> remove_position i c cats k = cats k"
  by (simp add: remove_position_def split: option.split)

lemma add_position_other [simp]:
  "k \<noteq> c \<Longrightarrow> add_position i c cats k = cats k"
  by (simp add: add_position_def split: option.split)

lemma remove_position_same [simp]:
  "remove_position i c cats c = map_option (remove1 i) (cats c)"
  by (simp add: remove_position_def remove1_idem split: option.split)

lemma add_position_same [simp]:
  "add_position i c cats c =
     Some (case cats c of None \<Rightarrow> [i] | Some xs \<Rightarrow> if i \<in> set xs then xs else xs @ [i])"
  by (simp add: add_position_def split: option.split)

lemma remove_rule_based:
  "fold (remove_position i) rule_based_categories cats k =
     (if k \<in> set rule_based_categories then map_option (remove1 i) (cats k) else cats k)"
  by (auto simp: rule_based_categories_def)

lemma add_to_categories_at:
  "add_to_categories mapping i wd cats k =
     (if qualifies mapping wd k then add_position i k cats k else cats k)"
  by (simp add: add_to_categories_def qualifies_def Let_def)

lemma qualifies_rule_based: "qualifies mapping wd k \<Longrightarrow> k \<in> set rule_based_categories"
  by (auto simp: qualifies_def rule_based_categories_def Let_def split: if_splits)

lemma add_op_at:
  "add_to_categories mapping i wd (fold (remove_position i) rule_based_categories cats) k =
     (if k \<in> set rule_based_categories then add_once (qualifies mapping wd k) i (cats k)
      else cats k)"
  using qualifies_rule_based [of mapping wd k]
  by (auto simp: add_to_categories_at remove_rule_based add_once_def)





text \<open>
  Claim C9. Whatever the index, the position, the facts and the operation, the incremental
  update leaves the lists of \<^verbatim>\<open>'leg day'\<close> and \<^verbatim>\<open>'upper body'\<close> as they were.
\<close>

theorem index_update_keeps_ai_categories:
  "categories (update_index_for_workout mapping new_hash now workout_index wd operation index) ''leg day''
     = categories index ''leg day''
   \<and> categories (update_index_for_workout mapping new_hash now workout_index wd operation index) ''upper body''
     = categories index ''upper body''"
proof -
  have "''leg day'' \<notin> set rule_based_categories" and "''upper body'' \<notin> set rule_based_categories"
    by (simp_all add: rule_based_categories_def)
  then show ?thesis
    by (simp add: update_index_for_workout_def add_op_at remove_rule_based split: option.split)
qed





section \<open>Properties of the recovery status\<close>

lemma fold_track_group:
  "fold (track_group d) gs m k =
     (if k \<in> set gs then Some (case m k of None \<Rightarrow> d | Some e \<Rightarrow> min d e) else m k)"
proof (induction gs arbitrary: m)
  case Nil
  show ?case by simp
next
  case (Cons g gs)
  show ?case
    by (simp add: Cons.IH) (auto simp: track_group_def split: option.split)
qed

lemma track_entry_at:
  "track_entry entry m k =
     (if fst entry \<le> 14 \<and> k \<in> set (snd entry)
      then Some (case m k of None \<Rightarrow> fst entry | Some e \<Rightarrow> min (fst entry) e)
      else m k)"
  by (auto simp: track_entry_def fold_track_group)

lemma fold_track_entry:
  "fold track_entry entries m k =
     (case m k of
        None \<Rightarrow> smallest_days_ago entries k
      | Some e \<Rightarrow> Some (Min (insert e (set (days_seen k entries)))))"
proof (induction entries arbitrary: m)
  case Nil
  show ?case by (simp add: smallest_days_ago_def days_seen_def split: option.split)
next
  case (Cons entry entries)
  show ?case
  proof (cases "fst entry \<le> 14 \<and> k \<in> set (snd entry)")
    case False
    then have a: "track_entry entry m k = m k"
      and b: "days_seen k (entry # entries) = days_seen k entries"
      by (auto simp: track_entry_at days_seen_def)
    show ?thesis by (simp add: Cons.IH smallest_days_ago_def a b split: option.split)
  next
    case True
    then have ds: "days_seen k (entry # entries) = fst entry # days_seen k entries"
      by (simp add: days_seen_def)
    show ?thesis
    proof (cases "m k")
      case None
      with True have "track_entry entry m k = Some (fst entry)" by (simp add: track_entry_at)
      then show ?thesis using None by (simp add: Cons.IH ds smallest_days_ago_def)
    next
      case (Some e)
      with True have "track_entry entry m k = Some (min (fst entry) e)" by (simp add: track_entry_at)
      moreover have "Min (insert (min (fst entry) e) (set (days_seen k entries)))
          = Min (insert e (insert (fst entry) (set (days_seen k entries))))"
        by (cases "set (days_seen k entries) = {}") (simp_all add: min.assoc min.commute min.left_commute)
      ultimately show ?thesis using Some by (simp add: Cons.IH ds)
    qed
  qed
qed

lemma muscle_group_last_trained_eq:
  "muscle_group_last_trained entries = smallest_days_ago entries"
  by (rule ext) (simp add: muscle_group_last_trained_def fold_track_entry)

lemma fold_categorize_group:
  "fold (categorize_group m) gs r =
     \<lparr>too_soon = too_soon r @ bucket m (\<lambda>v. case v of None \<Rightarrow> False | Some d \<Rightarrow> d \<le> 1) gs,
      optimal = optimal r @ bucket m (\<lambda>v. case v of None \<Rightarrow> False | Some d \<Rightarrow> 2 \<le> d \<and> d \<le> 3) gs,
      ready = ready r @ bucket m (\<lambda>v. case v of None \<Rightarrow> False | Some d \<Rightarrow> 4 \<le> d \<and> d \<le> 6) gs,
      neglected = neglected r @ bucket m (\<lambda>v. case v of None \<Rightarrow> True | Some d \<Rightarrow> 7 \<le> d) gs\<rparr>"
proof (induction gs arbitrary: r)
  case Nil
  show ?case by (simp add: bucket_def)
next
  case (Cons g gs)
  show ?case
    by (simp add: Cons.IH) (auto simp: categorize_group_def bucket_def split: option.split)
qed

text \<open>
  Claim C7. For every window of recent workouts, each group of the canonical list is put
  into a bucket by its smallest \<^verbatim>\<open>days_ago\<close> in the window: at most 1 day too-soon,
  2 to 3 optimal, 4 to 6 ready, 7 or more or never seen neglected; and
  \<^verbatim>\<open>arms\<close> is dropped from the neglected list whenever \<^verbatim>\<open>biceps\<close> or
  \<^verbatim>\<open>triceps\<close> is in it.
\<close>

theorem recovery_buckets:
  "too_soon (recovery_check today strptime mapping workouts)
     = bucket (smallest_days_ago (window_entries today strptime mapping workouts))
         (\<lambda>v. case v of None \<Rightarrow> False | Some d \<Rightarrow> d \<le> 1) all_groups
   \<and> optimal (recovery_check today strptime mapping workouts)
     = bucket (smallest_days_ago (window_entries today strptime mapping workouts))
         (\<lambda>v. case v of None \<Rightarrow> False | Some d \<Rightarrow> 2 \<le> d \<and> d \<le> 3) all_groups
   \<and> ready (recovery_check today strptime mapping workouts)
     = bucket (smallest_days_ago (window_entries today strptime mapping workouts))
         (\<lambda>v. case v of None \<Rightarrow> False | Some d \<Rightarrow> 4 \<le> d \<and> d \<le> 6) all_groups
   \<and> neglected (recovery_check today strptime mapping workouts)
     = filter (\<lambda>entry. \<not> (fst entry = ''arms''
                 \<and> (''biceps'' \<in> set (map fst
                       (bucket (smallest_days_ago (window_entries today strptime mapping workouts))
                          (\<lambda>v. case v of None \<Rightarrow> True | Some d \<Rightarrow> 7 \<le> d) all_groups))
                    \<or> ''triceps'' \<in> set (map fst
                       (bucket (smallest_days_ago (window_entries today strptime mapping workouts))
                          (\<lambda>v. case v of None \<Rightarrow> True | Some d \<Rightarrow> 7 \<le> d) all_groups)))))
         (bucket (smallest_days_ago (window_entries today strptime mapping workouts))
            (\<lambda>v. case v of None \<Rightarrow> True | Some d \<Rightarrow> 7 \<le> d) all_groups)"
  by (simp add: recovery_check_def recovery_status_def categorize_def fold_categorize_group
      muscle_group_last_trained_eq filter_neglected_def Let_def)

text \<open>
  The scenario of the specification: chest last trained today, although also 3 and 5 days
  ago, is too-soon; legs 10 days ago and the groups never seen are neglected; arms is
  dropped since biceps is neglected.
\<close>

lemma recovery_scenario:
  "recovery_status (muscle_group_last_trained
      [(3, [''chest'']), (0, [''back'', ''chest'']), (10, [''legs'']), (5, [''chest''])])
   = \<lparr>too_soon = [(''chest'', Some 0), (''back'', Some 0)], optimal = [], ready = [],
      neglected = [(''shoulders'', None), (''biceps'', None), (''triceps'', None),
       (''legs'', Some 10), (''glutes'', None), (''calves'', None), (''core'', None), (''abs'', None)]\<rparr>"
  by code_simp

end
